theory Spec2Isabelle
  imports Complex_Main "HOL-Library.Word" "HOL-Library.Log_Nat"
begin

section \<open>Values shared by the whole file\<close>

text \<open>
  A Go \<^verbatim>\<open>string\<close> and a Go \<^verbatim>\<open>[]byte\<close> are both sequences of bytes; an Isabelle
  \<^typ>\<open>char\<close> is one byte, so both are \<^typ>\<open>string\<close> here.
\<close>

type_synonym bytes = string

text \<open>
  The Go \<^verbatim>\<open>error\<close> values that reach the functions of \<^verbatim>\<open>cmd/root.go\<close>. The two
  JSON errors are those of \<^verbatim>\<open>encoding/json\<close>; of a \<^verbatim>\<open>SyntaxError\<close> the model keeps
  the offending byte and the phrase that says where it stood, not the byte offset.
  Every other library error (a failed file read, a rejected key pair, a failed dial, a
  malformed duration) is an \<open>errorString\<close> carrying its message.
\<close>

datatype error =
    SyntaxError_invalid_character char string
  | SyntaxError_unexpected_end
  | SyntaxError_exceeded_max_depth
  | UnmarshalTypeError bytes
  | errorString string

section \<open>Configuration, certificates and the connection\<close>

text \<open>
  The keys of the process-wide \<^verbatim>\<open>viper\<close> configuration that \<^verbatim>\<open>createGrpcConn\<close>,
  \<^verbatim>\<open>loadCerts\<close> and \<^verbatim>\<open>loadCACerts\<close> read (\<^verbatim>\<open>viper.GetString("tls-ca")\<close> is
  \<open>tls_ca cfg\<close>, and so on).
\<close>

record config =
  timeout :: string
  max_msg_size :: int
  proxy_from_env :: bool
  insecure :: bool
  skip_verify :: bool
  tls_cert :: string
  tls_key :: string
  tls_ca :: string

text \<open>
  \<^verbatim>\<open>tls.Certificate\<close>: a certificate chain and its private key. The zero value, which
  \<^verbatim>\<open>var certificate tls.Certificate\<close> declares, has neither.
\<close>

record tls_Certificate =
  Certificate :: "bytes list"
  PrivateKey :: "bytes option"

definition zero_Certificate :: tls_Certificate where
  "zero_Certificate = \<lparr>Certificate = [], PrivateKey = None\<rparr>"

text \<open>
  \<^verbatim>\<open>x509.CertPool\<close>: a set of certificates, each stood for by its DER bytes.
\<close>

type_synonym CertPool = "bytes set"

definition NewCertPool :: CertPool where
  "NewCertPool = {}"

datatype RenegotiationSupport = RenegotiateNever | RenegotiateOnceAsClient | RenegotiateFreelyAsClient

text \<open>
  The fields of \<^verbatim>\<open>tls.Config\<close> that the source sets. \<open>Certificates\<close> is the empty list
  for a nil slice; \<open>RootCAs\<close> is a pointer and \<open>None\<close> when nil.
\<close>

record tls_Config =
  Renegotiation :: RenegotiationSupport
  InsecureSkipVerify :: bool
  Certificates :: "tls_Certificate list"
  RootCAs :: "CertPool option"

datatype DialOption =
    WithTimeout int
  | WithBlock
  | WithDefaultCallOptions_MaxCallRecvMsgSize int
  | WithNoProxy
  | WithInsecure
  | WithTransportCredentials_NewTLS tls_Config

datatype ClientConn = ClientConn string "DialOption list"

text \<open>
  What lies outside the program: the libraries whose results depend on files, on the
  network or on floating-point arithmetic are parameters of the model.
  \<^item> \<open>ParseDuration\<close> is \<^verbatim>\<open>time.ParseDuration\<close> (a duration in nanoseconds, or an error);
  \<^item> \<open>LoadX509KeyPair\<close> is \<^verbatim>\<open>tls.LoadX509KeyPair\<close> on a certificate path and a key path;
  \<^item> \<open>ReadFile\<close> is \<^verbatim>\<open>ioutil.ReadFile\<close>;
  \<^item> \<open>pem_certificates\<close> gives the certificates that \<^verbatim>\<open>x509\<close> parses out of PEM data,
    those that \<^verbatim>\<open>AppendCertsFromPEM\<close> adds to a pool;
  \<^item> \<open>Dial\<close> is \<^verbatim>\<open>grpc.Dial\<close>.
\<close>

record world =
  ParseDuration :: "string \<Rightarrow> error + int"
  LoadX509KeyPair :: "string \<Rightarrow> string \<Rightarrow> error + tls_Certificate"
  ReadFile :: "string \<Rightarrow> error + bytes"
  pem_certificates :: "bytes \<Rightarrow> bytes list"
  Dial :: "string \<Rightarrow> DialOption list \<Rightarrow> error + ClientConn"

text \<open>
  The effects of a call, in the order in which they happen: each library call that
  touches a file or the network, and each line written to the log.
\<close>

datatype effect =
    Call_LoadX509KeyPair string string
  | Call_ReadFile string
  | Call_Dial string "DialOption list"
  | Log_Printf string error

text \<open>
  \<^verbatim>\<open>(*CertPool).AppendCertsFromPEM\<close>: adds every certificate parsed from the data and
  reports whether there was at least one.
\<close>

definition AppendCertsFromPEM :: "world \<Rightarrow> CertPool \<Rightarrow> bytes \<Rightarrow> CertPool \<times> bool" where
  "AppendCertsFromPEM w certPool pemCerts =
     (certPool \<union> set (pem_certificates w pemCerts), pem_certificates w pemCerts \<noteq> [])"

text \<open>\<^verbatim>\<open>loadCerts\<close> (root.go, lines 238-250): the result and the effects.\<close>

definition loadCerts :: "world \<Rightarrow> config \<Rightarrow> (error + tls_Certificate list) \<times> effect list" where
  "loadCerts w cfg =
     (let tlsCert = tls_cert cfg; tlsKey = tls_key cfg in
      if tlsCert \<noteq> [] \<and> tlsKey \<noteq> [] then
        (case LoadX509KeyPair w tlsCert tlsKey of
           Inl err \<Rightarrow> (Inl err, [Call_LoadX509KeyPair tlsCert tlsKey])
         | Inr certificate \<Rightarrow> (Inr [certificate], [Call_LoadX509KeyPair tlsCert tlsKey]))
      else (Inr [zero_Certificate], []))"

text \<open>\<^verbatim>\<open>loadCACerts\<close> (root.go, lines 251-265).\<close>

definition loadCACerts :: "world \<Rightarrow> config \<Rightarrow> (error + CertPool) \<times> effect list" where
  "loadCACerts w cfg =
     (let tlsCa = tls_ca cfg; certPool = NewCertPool in
      if tlsCa \<noteq> [] then
        (case ReadFile w tlsCa of
           Inl err \<Rightarrow> (Inl err, [Call_ReadFile tlsCa])
         | Inr caFile \<Rightarrow>
             (case AppendCertsFromPEM w certPool caFile of
                (certPool', ok) \<Rightarrow>
                  if \<not> ok then (Inl (errorString ''failed to append certificate''), [Call_ReadFile tlsCa])
                  else (Inr certPool', [Call_ReadFile tlsCa])))
      else (Inr certPool, []))"

text \<open>
  The TLS branch of \<^verbatim>\<open>createGrpcConn\<close> (lines 196-211): a loader's error is logged and
  the nil it returned is used.
\<close>

definition tls_branch :: "world \<Rightarrow> config \<Rightarrow> DialOption \<times> effect list" where
  "tls_branch w cfg =
     (let tlsConfig = \<lparr>Renegotiation = RenegotiateNever, InsecureSkipVerify = skip_verify cfg,
                       Certificates = [], RootCAs = None\<rparr> in
      case loadCerts w cfg of (r1, fx1) \<Rightarrow>
      case (case r1 of Inl err \<Rightarrow> ([], [Log_Printf ''failed loading certificates: %v'' err])
                     | Inr certificates \<Rightarrow> (certificates, [])) of (certificates, log1) \<Rightarrow>
      let tlsConfig = tlsConfig\<lparr>Certificates := certificates\<rparr> in
      case loadCACerts w cfg of (r2, fx2) \<Rightarrow>
      case (case r2 of Inl err \<Rightarrow> (None, [Log_Printf ''failed loading CA certificates: %v'' err])
                     | Inr certPool \<Rightarrow> (Some certPool, [])) of (certPool, log2) \<Rightarrow>
      let tlsConfig = tlsConfig\<lparr>RootCAs := certPool\<rparr> in
      (WithTransportCredentials_NewTLS tlsConfig, fx1 @ log1 @ fx2 @ log2))"

text \<open>\<^verbatim>\<open>createGrpcConn\<close> (root.go, lines 179-218).\<close>

definition createGrpcConn :: "world \<Rightarrow> config \<Rightarrow> string \<Rightarrow> (error + ClientConn) \<times> effect list" where
  "createGrpcConn w cfg address =
     (case ParseDuration w (timeout cfg) of
        Inl err \<Rightarrow> (Inl err, [])
      | Inr timeout' \<Rightarrow>
          let opts = [];
              opts = opts @ [WithTimeout timeout'];
              opts = opts @ [WithBlock];
              opts = (if max_msg_size cfg > 0
                      then opts @ [WithDefaultCallOptions_MaxCallRecvMsgSize (max_msg_size cfg)]
                      else opts);
              opts = (if \<not> proxy_from_env cfg then opts @ [WithNoProxy] else opts)
          in case (if insecure cfg then (WithInsecure, [])
                   else tls_branch w cfg) of (security, fx) \<Rightarrow>
             let opts = opts @ [security] in
             (case Dial w address opts of
                Inl err \<Rightarrow> (Inl err, fx @ [Call_Dial address opts])
              | Inr conn \<Rightarrow> (Inr conn, fx @ [Call_Dial address opts])))"

text \<open>
  The effects that read certificate material: the two library calls that
  \<^verbatim>\<open>loadCerts\<close> and \<^verbatim>\<open>loadCACerts\<close> make.
\<close>

fun reads_certificate_material :: "effect \<Rightarrow> bool" where
  "reads_certificate_material (Call_LoadX509KeyPair c k) = True"
| "reads_certificate_material (Call_ReadFile p) = True"
| "reads_certificate_material (Call_Dial a opts) = False"
| "reads_certificate_material (Log_Printf f e) = False"

section \<open>Rendering a path\<close>

text \<open>
  \<^verbatim>\<open>gnmi.PathElem\<close>: a name and a map from key names to key values. \<open>Key\<close> is
  \<open>None\<close> for a nil map. A Go map has no iteration order: \<open>Key\<close> lists the entries (one
  per key) in the order in which \<^verbatim>\<open>range\<close> visits them in the run described, so
  what holds for every list holds for every order the runtime may pick.
\<close>

record PathElem =
  Name :: string
  Key :: "(string \<times> string) list option"

text \<open>
  \<^verbatim>\<open>gnmi.Path\<close>: of its fields the function reads \<open>Elem\<close> only, a slice of pointers
  (\<open>None\<close> is a nil pointer).
\<close>

record Path =
  Elem :: "PathElem option list"

text \<open>The generated getters, which accept a nil receiver.\<close>

definition GetName :: "PathElem option \<Rightarrow> string" where
  "GetName pe = (case pe of None \<Rightarrow> [] | Some e \<Rightarrow> Name e)"

definition GetKey :: "PathElem option \<Rightarrow> (string \<times> string) list option" where
  "GetKey pe = (case pe of None \<Rightarrow> None | Some e \<Rightarrow> Key e)"

definition GetElem :: "Path option \<Rightarrow> PathElem option list" where
  "GetElem p = (case p of None \<Rightarrow> [] | Some q \<Rightarrow> Elem q)"

text \<open>\<^verbatim>\<open>fmt.Sprintf("[%s=%s]", k, v)\<close>.\<close>

definition Sprintf_key :: "string \<Rightarrow> string \<Rightarrow> string" where
  "Sprintf_key k v = ''['' @ k @ ''='' @ v @ '']''"

text \<open>The inner loop \<^verbatim>\<open>for k, v := range pe.GetKey() { elem += ... }\<close>.\<close>

fun range_Key :: "string \<Rightarrow> (string \<times> string) list \<Rightarrow> string" where
  "range_Key elem [] = elem"
| "range_Key elem ((k, v) # kvs) = range_Key (elem @ Sprintf_key k v) kvs"

text \<open>The body of the outer loop: what one path element adds to \<^verbatim>\<open>pathElems\<close>.\<close>

definition path_elem_body :: "string list \<Rightarrow> PathElem option \<Rightarrow> string list" where
  "path_elem_body pathElems pe =
     (let elem = [];
          elem = (if GetName pe \<noteq> [] then elem @ GetName pe else elem);
          elem = (case GetKey pe of None \<Rightarrow> elem | Some kvs \<Rightarrow> range_Key elem kvs)
      in pathElems @ [elem])"

fun range_Elem :: "string list \<Rightarrow> PathElem option list \<Rightarrow> string list" where
  "range_Elem pathElems [] = pathElems"
| "range_Elem pathElems (pe # pes) = range_Elem (path_elem_body pathElems pe) pes"

text \<open>
  \<^verbatim>\<open>strings.Join\<close>: nothing for no element, the element itself for one, and otherwise
  a builder that takes the first element and then the separator before each other one.
\<close>

fun Join_builder :: "string \<Rightarrow> string list \<Rightarrow> string \<Rightarrow> string" where
  "Join_builder b [] sep = b"
| "Join_builder b (s # ss) sep = Join_builder (b @ sep @ s) ss sep"

fun strings_Join :: "string list \<Rightarrow> string \<Rightarrow> string" where
  "strings_Join [] sep = []"
| "strings_Join [e] sep = e"
| "strings_Join (e # es) sep = Join_builder e es sep"

text \<open>\<^verbatim>\<open>gnmiPathToXPath\<close> (root.go, lines 219-237).\<close>

definition gnmiPathToXPath :: "Path option \<Rightarrow> string" where
  "gnmiPathToXPath p =
     (if p = None then []
      else let pathElems = range_Elem [] (GetElem p) in strings_Join pathElems ''/'')"

text \<open>
  The specification's words, to compare with the function above: an element is rendered
  as its name followed by one \<open>[key=value]\<close> per entry, and the rendered elements are
  joined with a separator between neighbours.
\<close>

definition rendered_element :: "PathElem option \<Rightarrow> string" where
  "rendered_element pe =
     GetName pe @ concat (map (\<lambda>(k, v). ''['' @ k @ ''='' @ v @ '']'')
                               (case GetKey pe of None \<Rightarrow> [] | Some kvs \<Rightarrow> kvs))"

fun joined_with :: "string \<Rightarrow> string list \<Rightarrow> string" where
  "joined_with sep [] = []"
| "joined_with sep [x] = x"
| "joined_with sep (x # y # ys) = x @ sep @ joined_with sep (y # ys)"

section \<open>Typed values\<close>

text \<open>
  The messages of the gNMI protocol that a typed value can hold. A 64-bit or 32-bit
  number is a machine word; the \<^verbatim>\<open>float32\<close> of \<open>FloatVal\<close> is its 32 bits, which the
  decoder hands on untouched. A pointer to a message is an \<open>option\<close>.
\<close>

record Decimal64 =
  Digits :: "64 word"
  Precision :: "32 word"

record Any =
  TypeUrl :: string
  Any_Value :: bytes

text \<open>
  \<^verbatim>\<open>gnmi.TypedValue\<close> has one field, the \<^verbatim>\<open>oneof\<close> \<open>Value\<close>, which is nil or one of
  thirteen wrappers; the constructors below are in the order of the type switch of
  \<^verbatim>\<open>getValue\<close>. A leaf-list is a \<^verbatim>\<open>ScalarArray\<close> of typed values.
\<close>

datatype TypedValue = TypedValue (Value: "isTypedValue_Value option")
and isTypedValue_Value =
    TypedValue_AsciiVal string
  | TypedValue_BoolVal bool
  | TypedValue_BytesVal bytes
  | TypedValue_DecimalVal "Decimal64 option"
  | TypedValue_FloatVal "32 word"
  | TypedValue_IntVal "64 word"
  | TypedValue_StringVal string
  | TypedValue_UintVal "64 word"
  | TypedValue_JsonIetfVal bytes
  | TypedValue_JsonVal bytes
  | TypedValue_LeaflistVal "ScalarArray option"
  | TypedValue_ProtoBytes bytes
  | TypedValue_AnyVal "Any option"
and ScalarArray = ScalarArray (Element: "TypedValue option list")

text \<open>
  The dynamic values of the \<^verbatim>\<open>interface{}\<close> that \<^verbatim>\<open>getValue\<close> returns: \<open>nil\<close>, the
  payload of a variant with its Go type, or what \<^verbatim>\<open>encoding/json\<close> stores into an empty
  interface (\<^verbatim>\<open>bool\<close>, \<^verbatim>\<open>float64\<close>, \<^verbatim>\<open>string\<close>, \<^verbatim>\<open>[]interface{}\<close>,
  \<^verbatim>\<open>map[string]interface{}\<close>). A pointer that is nil is still a value with a type, so
  \<open>Decimal64_ptr None\<close> differs from \<open>nil\<close>. A finite \<^verbatim>\<open>float64\<close> is the rational it
  denotes (the sign of a zero, which Go's \<^verbatim>\<open>==\<close> ignores, is not kept).
\<close>

datatype interface =
    nil
  | string_val string
  | bool_val bool
  | bytes_val bytes
  | Decimal64_ptr "Decimal64 option"
  | float32_val "32 word"
  | int64_val "64 word"
  | uint64_val "64 word"
  | ScalarArray_ptr "ScalarArray option"
  | Any_ptr "Any option"
  | float64_val rat
  | slice_val "interface list"
  | map_val "string \<rightharpoonup> interface"

section \<open>The JSON decoder of the Go library\<close>

text \<open>
  \<^verbatim>\<open>json.Unmarshal\<close> into an empty interface, which \<^verbatim>\<open>getValue\<close> calls, is not part
  of the repository; it is modelled here after \<^verbatim>\<open>encoding/json\<close>. The library checks
  the whole input with a scanner that takes one byte at a time, and then decodes it; the
  model does both in one pass, with the scanner's states and its stack, and builds the
  value while it scans.
\<close>

definition byte :: "char \<Rightarrow> nat" where
  "byte c = of_char c"

definition isSpace :: "char \<Rightarrow> bool" where
  "isSpace c = (c = CHR '' '' \<or> c = CHR 0x09 \<or> c = CHR 0x0D \<or> c = CHR 0x0A)"

definition isDigit :: "char \<Rightarrow> bool" where
  "isDigit c = (48 \<le> byte c \<and> byte c \<le> 57)"

definition isHex :: "char \<Rightarrow> bool" where
  "isHex c = (isDigit c \<or> (97 \<le> byte c \<and> byte c \<le> 102) \<or> (65 \<le> byte c \<and> byte c \<le> 70))"

subsection \<open>Strings: escapes and UTF-8\<close>

text \<open>
  \<^verbatim>\<open>utf8.EncodeRune\<close>: the UTF-8 bytes of a code point; a surrogate or a value beyond
  U+10FFFF is written as U+FFFD.
\<close>

definition EncodeRune :: "int \<Rightarrow> bytes" where
  "EncodeRune r =
     (if r \<le> 0x7F then [char_of r]
      else if r \<le> 0x7FF then [char_of (0xC0 + r div 64), char_of (0x80 + r mod 64)]
      else if r > 0x10FFFF \<or> (0xD800 \<le> r \<and> r \<le> 0xDFFF)
        then [char_of (0xEF::int), char_of (0xBF::int), char_of (0xBD::int)]
      else if r \<le> 0xFFFF
        then [char_of (0xE0 + r div 4096), char_of (0x80 + (r div 64) mod 64), char_of (0x80 + r mod 64)]
      else [char_of (0xF0 + r div 262144), char_of (0x80 + (r div 4096) mod 64),
            char_of (0x80 + (r div 64) mod 64), char_of (0x80 + r mod 64)])"

text \<open>
  \<^verbatim>\<open>utf8.DecodeRune\<close>, as far as the decoder uses it: the number of bytes of the
  well-formed sequence at the head of the input, or 0 when the head is not well formed
  (the library then yields U+FFFD and moves on by one byte). The second byte has a
  narrower range after \<open>E0\<close>, \<open>ED\<close>, \<open>F0\<close> and \<open>F4\<close>.
\<close>

definition continuation :: "char \<Rightarrow> bool" where
  "continuation c = (0x80 \<le> byte c \<and> byte c \<le> 0xBF)"

definition accept_second :: "char \<Rightarrow> char \<Rightarrow> bool" where
  "accept_second p0 b1 =
     (let lo = (if byte p0 = 0xE0 then 0xA0 else if byte p0 = 0xF0 then 0x90 else 0x80);
          hi = (if byte p0 = 0xED then 0x9F else if byte p0 = 0xF4 then 0x8F else 0xBF)
      in lo \<le> byte b1 \<and> byte b1 \<le> hi)"

definition sequence_length :: "char \<Rightarrow> nat" where
  "sequence_length p0 =
     (if byte p0 < 0x80 then 1
      else if 0xC2 \<le> byte p0 \<and> byte p0 \<le> 0xDF then 2
      else if 0xE0 \<le> byte p0 \<and> byte p0 \<le> 0xEF then 3
      else if 0xF0 \<le> byte p0 \<and> byte p0 \<le> 0xF4 then 4
      else 0)"

definition DecodeRune_size :: "bytes \<Rightarrow> nat" where
  "DecodeRune_size p =
     (case p of
        [] \<Rightarrow> 0
      | p0 # ps \<Rightarrow>
          let sz = sequence_length p0 in
          if sz = 0 then 0
          else if sz = 1 then 1
          else if length p < sz then 0
          else if \<not> accept_second p0 (ps ! 0) then 0
          else if sz \<le> 2 then 2
          else if \<not> continuation (ps ! 1) then 0
          else if sz \<le> 3 then 3
          else if \<not> continuation (ps ! 2) then 0
          else 4)"

text \<open>
  \<^verbatim>\<open>getu4\<close>: the number written by the four hexadecimal digits of a \<open>\uXXXX\<close> at the
  head of the input, or \<open>-1\<close> when the input does not start with one.
\<close>

definition hex_digit :: "char \<Rightarrow> int" where
  "hex_digit c =
     (if isDigit c then int (byte c) - 48
      else if 97 \<le> byte c \<and> byte c \<le> 102 then int (byte c) - 97 + 10
      else int (byte c) - 65 + 10)"

definition getu4 :: "bytes \<Rightarrow> int" where
  "getu4 s =
     (if length s < 6 \<or> s ! 0 \<noteq> CHR 0x5C \<or> s ! 1 \<noteq> CHR ''u'' then -1
      else if \<not> (isHex (s ! 2) \<and> isHex (s ! 3) \<and> isHex (s ! 4) \<and> isHex (s ! 5)) then -1
      else ((hex_digit (s ! 2) * 16 + hex_digit (s ! 3)) * 16 + hex_digit (s ! 4)) * 16
           + hex_digit (s ! 5))"

definition IsSurrogate :: "int \<Rightarrow> bool" where
  "IsSurrogate r = (0xD800 \<le> r \<and> r < 0xE000)"

text \<open>\<^verbatim>\<open>utf16.DecodeRune\<close>: the code point of a surrogate pair, or U+FFFD.\<close>

definition utf16_DecodeRune :: "int \<Rightarrow> int \<Rightarrow> int" where
  "utf16_DecodeRune r1 r2 =
     (if 0xD800 \<le> r1 \<and> r1 < 0xDC00 \<and> 0xDC00 \<le> r2 \<and> r2 < 0xE000
      then (r1 - 0xD800) * 1024 + (r2 - 0xDC00) + 0x10000
      else 0xFFFD)"

text \<open>The byte that a one-letter escape stands for.\<close>

definition escaped :: "char \<Rightarrow> char" where
  "escaped e =
     (if e = CHR ''b'' then CHR 0x08
      else if e = CHR ''f'' then CHR 0x0C
      else if e = CHR ''n'' then CHR 0x0A
      else if e = CHR ''r'' then CHR 0x0D
      else if e = CHR ''t'' then CHR 0x09
      else e)"

text \<open>
  \<^verbatim>\<open>unquote\<close>, on the bytes between the quotes of a literal that the scanner has
  accepted: escapes are replaced, a surrogate pair of \<open>\u\<close> escapes becomes one code
  point, a lone surrogate and every ill-formed UTF-8 byte become U+FFFD.
\<close>

fun unquote :: "bytes \<Rightarrow> bytes" where
  "unquote [] = []"
| "unquote (c # s) =
     (if c = CHR 0x5C then
        (case s of
           [] \<Rightarrow> []
         | e # s' \<Rightarrow>
             if e = CHR ''u'' then
               (let rr = getu4 (c # s); r = drop 4 s' in
                if rr < 0 then []
                else if IsSurrogate rr then
                  (let rr1 = getu4 r; dec = utf16_DecodeRune rr rr1 in
                   if dec \<noteq> 0xFFFD then EncodeRune dec @ unquote (drop 6 r)
                   else EncodeRune 0xFFFD @ unquote r)
                else EncodeRune rr @ unquote r)
             else escaped e # unquote s')
      else if byte c < 0x80 then c # unquote s
      else
        (let size = DecodeRune_size (c # s) in
         if size = 0 then EncodeRune 0xFFFD @ unquote s
         else take size (c # s) @ unquote (drop size (c # s))))"

subsection \<open>Numbers\<close>

text \<open>
  The decoder gives a number literal to \<^verbatim>\<open>strconv.ParseFloat(s, 64)\<close>. The literal
  has passed the scanner, so it is a sign, digits, an optional fraction and an optional
  exponent; \<open>literal_value\<close> is the rational that it writes.
\<close>

fun digits_value :: "int \<Rightarrow> bytes \<Rightarrow> int" where
  "digits_value n [] = n"
| "digits_value n (c # cs) = digits_value (10 * n + (int (byte c) - 48)) cs"

definition exponent_value :: "bytes \<Rightarrow> int" where
  "exponent_value s =
     (case s of
        [] \<Rightarrow> 0
      | e # s' \<Rightarrow>
          (case s' of
             [] \<Rightarrow> 0
           | g # ds \<Rightarrow>
               if g = CHR ''-'' then - digits_value 0 ds
               else if g = CHR ''+'' then digits_value 0 ds
               else digits_value 0 s'))"

definition scale10 :: "rat \<Rightarrow> int \<Rightarrow> rat" where
  "scale10 m k = (if 0 \<le> k then m * 10 ^ nat k else m / 10 ^ nat (- k))"

definition literal_value :: "bytes \<Rightarrow> rat" where
  "literal_value s =
     (let neg = (s \<noteq> [] \<and> hd s = CHR ''-'');
          s1 = (if neg then tl s else s);
          ip = takeWhile isDigit s1;
          r1 = dropWhile isDigit s1;
          fp = (if r1 \<noteq> [] \<and> hd r1 = CHR ''.'' then takeWhile isDigit (tl r1) else []);
          r2 = (if r1 \<noteq> [] \<and> hd r1 = CHR ''.'' then dropWhile isDigit (tl r1) else r1);
          m = scale10 (of_int (digits_value 0 (ip @ fp))) (exponent_value r2 - int (length fp))
      in if neg then - m else m)"

text \<open>
  The nearest \<^verbatim>\<open>float64\<close> to a rational, ties to the even significand: 53 bits of
  significand, the smallest exponent of a normal number \<open>-1022\<close>, below it the spacing
  \<open>2^-1074\<close> of the subnormal numbers. \<open>floor_log2 q\<close> is the exponent \<open>e\<close> with
  \<open>2^e \<le> q < 2^(e+1)\<close>, found from the bit lengths of numerator and denominator.
\<close>

definition scale2 :: "rat \<Rightarrow> int \<Rightarrow> rat" where
  "scale2 m k = (if 0 \<le> k then m * 2 ^ nat k else m / 2 ^ nat (- k))"

definition floor_log2 :: "rat \<Rightarrow> int" where
  "floor_log2 q =
     (case quotient_of q of (a, b) \<Rightarrow>
        let d = bitlen a - bitlen b
        in if scale2 1 d \<le> q then d else d - 1)"

definition round_half_even :: "rat \<Rightarrow> int" where
  "round_half_even k =
     (let f = \<lfloor>k\<rfloor>; d = k - of_int f
      in if d < 1 / 2 then f else if 1 / 2 < d then f + 1 else if even f then f else f + 1)"

definition nearest_float64 :: "rat \<Rightarrow> rat" where
  "nearest_float64 q =
     (if q = 0 then 0
      else let a = \<bar>q\<bar>;
               p = max (floor_log2 a) (- 1022) - 52;
               r = scale2 (of_int (round_half_even (scale2 a (- p)))) p
           in if q < 0 then - r else r)"

text \<open>
  \<^verbatim>\<open>strconv.ParseFloat\<close> on such a literal: a range error when the nearest value is
  beyond the largest \<^verbatim>\<open>float64\<close>; the decoder turns it into an \<^verbatim>\<open>UnmarshalTypeError\<close>
  that names the literal.
\<close>

definition convertNumber :: "bytes \<Rightarrow> error + rat" where
  "convertNumber s =
     (let f = nearest_float64 (literal_value s)
      in if 2 ^ 1024 \<le> \<bar>f\<bar> then Inl (UnmarshalTypeError (''number '' @ s)) else Inr f)"

subsection \<open>The scanner and the value it builds\<close>

datatype scan_state =
    stateBeginValue | stateBeginValueOrEmpty | stateBeginStringOrEmpty | stateBeginString
  | stateEndValue | stateEndTop
  | stateInString | stateInStringEsc
  | stateInStringEscU | stateInStringEscU1 | stateInStringEscU12 | stateInStringEscU123
  | stateNeg | state1 | state0 | stateDot | stateDot0 | stateE | stateESign | stateE0
  | stateT | stateTr | stateTru
  | stateF | stateFa | stateFal | stateFals
  | stateN | stateNu | stateNul

text \<open>
  An entry of the scanner's stack, with what the decoder has built of the container so
  far: the map and the current key of an object (before or after the colon), the
  elements of an array.
\<close>

datatype parse_state =
    parseObjectKey "string \<rightharpoonup> interface" string
  | parseObjectValue "string \<rightharpoonup> interface" string
  | parseArrayValue "interface list"

text \<open>
  \<open>item\<close> holds the bytes of the string or number being read, \<open>decoded\<close> the finished
  top-level value, \<open>savedError\<close> the first error that does not stop the decoding.
  The head of \<open>parseState\<close> is the innermost open container.
\<close>

record decodeState =
  step :: scan_state
  parseState :: "parse_state list"
  item :: bytes
  decoded :: interface
  savedError :: "error option"

text \<open>
  The library (since Go 1.15) refuses input whose containers nest deeper than this.
\<close>

definition maxNestingDepth :: nat where
  "maxNestingDepth = 10000"

definition scan_error :: "char \<Rightarrow> string \<Rightarrow> error + decodeState" where
  "scan_error c context = Inl (SyntaxError_invalid_character c context)"

definition pushParseState :: "decodeState \<Rightarrow> parse_state \<Rightarrow> error + decodeState" where
  "pushParseState d newParseState =
     (let d = d\<lparr>parseState := newParseState # parseState d\<rparr>
      in if length (parseState d) \<le> maxNestingDepth then Inr d
         else Inl SyntaxError_exceeded_max_depth)"

text \<open>
  A finished value goes where the innermost open container wants it: it is the key of
  an object, the value of the current key (a later value of the same key replaces an
  earlier one), the next element of an array, or the top-level value.
\<close>

definition store_value :: "interface \<Rightarrow> decodeState \<Rightarrow> decodeState" where
  "store_value v d =
     (case parseState d of
        [] \<Rightarrow> d\<lparr>decoded := v\<rparr>
      | parseObjectKey m k # ps \<Rightarrow>
          (case v of string_val s \<Rightarrow> d\<lparr>parseState := parseObjectKey m s # ps\<rparr> | _ \<Rightarrow> d)
      | parseObjectValue m k # ps \<Rightarrow> d\<lparr>parseState := parseObjectValue (m(k \<mapsto> v)) k # ps\<rparr>
      | parseArrayValue vs # ps \<Rightarrow> d\<lparr>parseState := parseArrayValue (vs @ [v]) # ps\<rparr>)"

definition saveError :: "error \<Rightarrow> decodeState \<Rightarrow> decodeState" where
  "saveError err d = (if savedError d = None then d\<lparr>savedError := Some err\<rparr> else d)"

definition store_number :: "decodeState \<Rightarrow> decodeState" where
  "store_number d =
     (case convertNumber (item d) of
        Inl err \<Rightarrow> store_value nil (saveError err d)
      | Inr f \<Rightarrow> store_value (float64_val f) d)"

definition popParseState :: "interface \<Rightarrow> decodeState \<Rightarrow> decodeState" where
  "popParseState v d =
     (let d = store_value v (d\<lparr>parseState := tl (parseState d)\<rparr>)
      in if parseState d = [] then d\<lparr>step := stateEndTop\<rparr> else d\<lparr>step := stateEndValue\<rparr>)"

definition stateEndTop_step :: "decodeState \<Rightarrow> char \<Rightarrow> error + decodeState" where
  "stateEndTop_step d c =
     (if \<not> isSpace c then scan_error c ''after top-level value'' else Inr d)"

definition stateEndValue_step :: "decodeState \<Rightarrow> char \<Rightarrow> error + decodeState" where
  "stateEndValue_step d c =
     (case parseState d of
        [] \<Rightarrow> stateEndTop_step (d\<lparr>step := stateEndTop\<rparr>) c
      | ps # rest \<Rightarrow>
          if isSpace c then Inr (d\<lparr>step := stateEndValue\<rparr>)
          else
            (case ps of
               parseObjectKey m k \<Rightarrow>
                 if c = CHR '':'' then
                   Inr (d\<lparr>parseState := parseObjectValue m k # rest, step := stateBeginValue\<rparr>)
                 else scan_error c ''after object key''
             | parseObjectValue m k \<Rightarrow>
                 if c = CHR '','' then
                   Inr (d\<lparr>parseState := parseObjectKey m k # rest, step := stateBeginString\<rparr>)
                 else if c = CHR ''}'' then Inr (popParseState (map_val m) d)
                 else scan_error c ''after object key:value pair''
             | parseArrayValue vs \<Rightarrow>
                 if c = CHR '','' then Inr (d\<lparr>step := stateBeginValue\<rparr>)
                 else if c = CHR '']'' then Inr (popParseState (slice_val vs) d)
                 else scan_error c ''after array element''))"

definition stateBeginString_step :: "decodeState \<Rightarrow> char \<Rightarrow> error + decodeState" where
  "stateBeginString_step d c =
     (if isSpace c then Inr d
      else if c = CHR 0x22 then Inr (d\<lparr>step := stateInString, item := []\<rparr>)
      else scan_error c ''looking for beginning of object key string'')"

definition stateBeginValue_step :: "decodeState \<Rightarrow> char \<Rightarrow> error + decodeState" where
  "stateBeginValue_step d c =
     (if isSpace c then Inr d
      else if c = CHR ''{'' then
        pushParseState (d\<lparr>step := stateBeginStringOrEmpty\<rparr>) (parseObjectKey Map.empty [])
      else if c = CHR ''['' then
        pushParseState (d\<lparr>step := stateBeginValueOrEmpty\<rparr>) (parseArrayValue [])
      else if c = CHR 0x22 then Inr (d\<lparr>step := stateInString, item := []\<rparr>)
      else if c = CHR ''-'' then Inr (d\<lparr>step := stateNeg, item := [c]\<rparr>)
      else if c = CHR ''0'' then Inr (d\<lparr>step := state0, item := [c]\<rparr>)
      else if c = CHR ''t'' then Inr (d\<lparr>step := stateT\<rparr>)
      else if c = CHR ''f'' then Inr (d\<lparr>step := stateF\<rparr>)
      else if c = CHR ''n'' then Inr (d\<lparr>step := stateN\<rparr>)
      else if 49 \<le> byte c \<and> byte c \<le> 57 then Inr (d\<lparr>step := state1, item := [c]\<rparr>)
      else scan_error c ''looking for beginning of value'')"

text \<open>A number ends at the first byte that cannot continue it; that byte is then read
  as what follows a value.\<close>

definition number_end :: "decodeState \<Rightarrow> char \<Rightarrow> error + decodeState" where
  "number_end d c = stateEndValue_step (store_number d) c"

definition state0_step :: "decodeState \<Rightarrow> char \<Rightarrow> error + decodeState" where
  "state0_step d c =
     (if c = CHR ''.'' then Inr (d\<lparr>step := stateDot, item := item d @ [c]\<rparr>)
      else if c = CHR ''e'' \<or> c = CHR ''E'' then Inr (d\<lparr>step := stateE, item := item d @ [c]\<rparr>)
      else number_end d c)"

definition stateESign_step :: "decodeState \<Rightarrow> char \<Rightarrow> error + decodeState" where
  "stateESign_step d c =
     (if isDigit c then Inr (d\<lparr>step := stateE0, item := item d @ [c]\<rparr>)
      else scan_error c ''in exponent of numeric literal'')"

definition literal_step ::
    "decodeState \<Rightarrow> char \<Rightarrow> char \<Rightarrow> scan_state \<Rightarrow> string \<Rightarrow> error + decodeState" where
  "literal_step d c expected next context =
     (if c = expected then Inr (d\<lparr>step := next\<rparr>) else scan_error c context)"

definition literal_end ::
    "decodeState \<Rightarrow> char \<Rightarrow> char \<Rightarrow> interface \<Rightarrow> string \<Rightarrow> error + decodeState" where
  "literal_end d c expected v context =
     (if c = expected then Inr (store_value v d\<lparr>step := stateEndValue\<rparr>) else scan_error c context)"

definition hex_step :: "decodeState \<Rightarrow> char \<Rightarrow> scan_state \<Rightarrow> error + decodeState" where
  "hex_step d c next =
     (if isHex c then Inr (d\<lparr>step := next, item := item d @ [c]\<rparr>)
      else scan_error c (''in '' @ [CHR 0x5C] @ ''u hexadecimal character escape''))"

text \<open>One byte through the scanner: \<^verbatim>\<open>s.step(s, c)\<close>.\<close>

definition scan_step :: "decodeState \<Rightarrow> char \<Rightarrow> error + decodeState" where
  "scan_step d c =
     (case step d of
        stateBeginValue \<Rightarrow> stateBeginValue_step d c
      | stateBeginValueOrEmpty \<Rightarrow>
          if isSpace c then Inr d
          else if c = CHR '']'' then stateEndValue_step d c
          else stateBeginValue_step d c
      | stateBeginStringOrEmpty \<Rightarrow>
          if isSpace c then Inr d
          else if c = CHR ''}'' then
            (case parseState d of
               parseObjectKey m k # rest \<Rightarrow>
                 stateEndValue_step (d\<lparr>parseState := parseObjectValue m k # rest\<rparr>) c
             | _ \<Rightarrow> stateEndValue_step d c)
          else stateBeginString_step d c
      | stateBeginString \<Rightarrow> stateBeginString_step d c
      | stateEndValue \<Rightarrow> stateEndValue_step d c
      | stateEndTop \<Rightarrow> stateEndTop_step d c
      | stateInString \<Rightarrow>
          if c = CHR 0x22 then Inr (store_value (string_val (unquote (item d))) d\<lparr>step := stateEndValue\<rparr>)
          else if c = CHR 0x5C then Inr (d\<lparr>step := stateInStringEsc, item := item d @ [c]\<rparr>)
          else if byte c < 0x20 then scan_error c ''in string literal''
          else Inr (d\<lparr>item := item d @ [c]\<rparr>)
      | stateInStringEsc \<Rightarrow>
          if c \<in> set ''bfnrt'' \<or> c = CHR 0x5C \<or> c = CHR ''/'' \<or> c = CHR 0x22
            then Inr (d\<lparr>step := stateInString, item := item d @ [c]\<rparr>)
          else if c = CHR ''u'' then Inr (d\<lparr>step := stateInStringEscU, item := item d @ [c]\<rparr>)
          else scan_error c ''in string escape code''
      | stateInStringEscU \<Rightarrow> hex_step d c stateInStringEscU1
      | stateInStringEscU1 \<Rightarrow> hex_step d c stateInStringEscU12
      | stateInStringEscU12 \<Rightarrow> hex_step d c stateInStringEscU123
      | stateInStringEscU123 \<Rightarrow> hex_step d c stateInString
      | stateNeg \<Rightarrow>
          if c = CHR ''0'' then Inr (d\<lparr>step := state0, item := item d @ [c]\<rparr>)
          else if 49 \<le> byte c \<and> byte c \<le> 57 then Inr (d\<lparr>step := state1, item := item d @ [c]\<rparr>)
          else scan_error c ''in numeric literal''
      | state1 \<Rightarrow>
          if isDigit c then Inr (d\<lparr>step := state1, item := item d @ [c]\<rparr>)
          else state0_step d c
      | state0 \<Rightarrow> state0_step d c
      | stateDot \<Rightarrow>
          if isDigit c then Inr (d\<lparr>step := stateDot0, item := item d @ [c]\<rparr>)
          else scan_error c ''after decimal point in numeric literal''
      | stateDot0 \<Rightarrow>
          if isDigit c then Inr (d\<lparr>item := item d @ [c]\<rparr>)
          else if c = CHR ''e'' \<or> c = CHR ''E'' then Inr (d\<lparr>step := stateE, item := item d @ [c]\<rparr>)
          else number_end d c
      | stateE \<Rightarrow>
          if c = CHR ''+'' \<or> c = CHR ''-'' then Inr (d\<lparr>step := stateESign, item := item d @ [c]\<rparr>)
          else stateESign_step d c
      | stateESign \<Rightarrow> stateESign_step d c
      | stateE0 \<Rightarrow>
          if isDigit c then Inr (d\<lparr>item := item d @ [c]\<rparr>)
          else number_end d c
      | stateT \<Rightarrow> literal_step d c (CHR ''r'') stateTr ''in literal true (expecting 'r')''
      | stateTr \<Rightarrow> literal_step d c (CHR ''u'') stateTru ''in literal true (expecting 'u')''
      | stateTru \<Rightarrow> literal_end d c (CHR ''e'') (bool_val True) ''in literal true (expecting 'e')''
      | stateF \<Rightarrow> literal_step d c (CHR ''a'') stateFa ''in literal false (expecting 'a')''
      | stateFa \<Rightarrow> literal_step d c (CHR ''l'') stateFal ''in literal false (expecting 'l')''
      | stateFal \<Rightarrow> literal_step d c (CHR ''s'') stateFals ''in literal false (expecting 's')''
      | stateFals \<Rightarrow> literal_end d c (CHR ''e'') (bool_val False) ''in literal false (expecting 'e')''
      | stateN \<Rightarrow> literal_step d c (CHR ''u'') stateNu ''in literal null (expecting 'u')''
      | stateNu \<Rightarrow> literal_step d c (CHR ''l'') stateNul ''in literal null (expecting 'l')''
      | stateNul \<Rightarrow> literal_end d c (CHR ''l'') nil ''in literal null (expecting 'l')'')"

text \<open>The loop of \<^verbatim>\<open>checkValid\<close> over the bytes of the input.\<close>

fun scan_bytes :: "decodeState \<Rightarrow> bytes \<Rightarrow> error + decodeState" where
  "scan_bytes d [] = Inr d"
| "scan_bytes d (c # cs) =
     (case scan_step d c of Inl err \<Rightarrow> Inl err | Inr d' \<Rightarrow> scan_bytes d' cs)"

text \<open>
  The end of the input: the scanner is given one space, which ends a number that is
  still open, and the input is complete when that leaves it after the top-level value.
\<close>

definition scan_eof :: "decodeState \<Rightarrow> error + decodeState" where
  "scan_eof d =
     (if step d = stateEndTop then Inr d
      else
        (case scan_step d (CHR '' '') of
           Inl err \<Rightarrow> Inl err
         | Inr d' \<Rightarrow> if step d' = stateEndTop then Inr d' else Inl SyntaxError_unexpected_end))"

definition reset :: decodeState where
  "reset = \<lparr>step = stateBeginValue, parseState = [], item = [], decoded = nil, savedError = None\<rparr>"

text \<open>
  \<^verbatim>\<open>json.Unmarshal(data, &value)\<close> for a nil \<^verbatim>\<open>value\<close> of type \<^verbatim>\<open>interface{}\<close>: the
  error, or the value stored.
\<close>

definition json_Unmarshal :: "bytes \<Rightarrow> error + interface" where
  "json_Unmarshal data =
     (case scan_bytes reset data of
        Inl err \<Rightarrow> Inl err
      | Inr d \<Rightarrow>
          (case scan_eof d of
             Inl err \<Rightarrow> Inl err
           | Inr d' \<Rightarrow>
               (case savedError d' of Some err \<Rightarrow> Inl err | None \<Rightarrow> Inr (decoded d'))))"

section \<open>Decoding a typed value\<close>

text \<open>
  A Go function either returns or panics; \<^verbatim>\<open>getValue\<close> returns a pair of which one
  half is nil, which is the sum \<^typ>\<open>error + interface\<close>.
\<close>

datatype 'a outcome = Panics | Returns 'a

text \<open>
  \<^verbatim>\<open>getValue\<close> (root.go, lines 287-325). The argument is a pointer: reading
  \<^verbatim>\<open>updValue.Value\<close> through a nil pointer panics. The type switch sets \<^verbatim>\<open>value\<close>
  or \<^verbatim>\<open>jsondata\<close>; no case matches a nil \<open>Value\<close>.
\<close>

fun type_switch :: "isTypedValue_Value option \<Rightarrow> interface \<times> bytes" where
  "type_switch (Some (TypedValue_AsciiVal x)) = (string_val x, [])"
| "type_switch (Some (TypedValue_BoolVal x)) = (bool_val x, [])"
| "type_switch (Some (TypedValue_BytesVal x)) = (bytes_val x, [])"
| "type_switch (Some (TypedValue_DecimalVal x)) = (Decimal64_ptr x, [])"
| "type_switch (Some (TypedValue_FloatVal x)) = (float32_val x, [])"
| "type_switch (Some (TypedValue_IntVal x)) = (int64_val x, [])"
| "type_switch (Some (TypedValue_StringVal x)) = (string_val x, [])"
| "type_switch (Some (TypedValue_UintVal x)) = (uint64_val x, [])"
| "type_switch (Some (TypedValue_JsonIetfVal x)) = (nil, x)"
| "type_switch (Some (TypedValue_JsonVal x)) = (nil, x)"
| "type_switch (Some (TypedValue_LeaflistVal x)) = (ScalarArray_ptr x, [])"
| "type_switch (Some (TypedValue_ProtoBytes x)) = (bytes_val x, [])"
| "type_switch (Some (TypedValue_AnyVal x)) = (Any_ptr x, [])"
| "type_switch None = (nil, [])"

definition getValue :: "TypedValue option \<Rightarrow> (error + interface) outcome" where
  "getValue updValue =
     (case updValue of
        None \<Rightarrow> Panics
      | Some tv \<Rightarrow>
          (case type_switch (Value tv) of (value, jsondata) \<Rightarrow>
             if value = nil then
               (case json_Unmarshal jsondata of
                  Inl err \<Rightarrow> Returns (Inl err)
                | Inr value' \<Rightarrow> Returns (Inr value'))
             else Returns (Inr value)))"

section \<open>The consumers of the channel\<close>











section \<open>Example inputs\<close>

text \<open>
  A world in which only the duration \<open>30s\<close> parses, no key pair can be loaded, the file
  \<open>ca.pem\<close> holds one certificate and the file \<open>empty.pem\<close> holds none, and every dial
  succeeds; and the configuration that the flags' defaults give.
\<close>

definition example_world :: world where
  "example_world =
     \<lparr>ParseDuration = (\<lambda>s. if s = ''30s'' then Inr 30000000000
                            else Inl (errorString (''time: invalid duration '' @ s))),
      LoadX509KeyPair = (\<lambda>c k. Inl (errorString (''open '' @ c @ '': no such file or directory''))),
      ReadFile = (\<lambda>p. if p = ''ca.pem'' then Inr ''PEM'' else if p = ''empty.pem'' then Inr []
                       else Inl (errorString (''open '' @ p @ '': no such file or directory''))),
      pem_certificates = (\<lambda>d. if d = ''PEM'' then [''DER''] else []),
      Dial = (\<lambda>a opts. Inr (ClientConn a opts))\<rparr>"

definition example_config :: config where
  "example_config =
     \<lparr>timeout = ''30s'', max_msg_size = 512, proxy_from_env = False, insecure = False,
      skip_verify = False, tls_cert = [], tls_key = [], tls_ca = []\<rparr>"

section \<open>Theorems\<close>

subsection \<open>Certificates and the connection\<close>

text \<open>
  C9. When exactly one of the certificate path and the key path is empty,
  \<^verbatim>\<open>loadCerts\<close> calls no library function and returns the one zero certificate with
  no error, as it does when both paths are empty.
\<close>

theorem C9_loadCerts_one_path_empty:
  "(tls_cert cfg = [] \<and> tls_key cfg \<noteq> []) \<or> (tls_cert cfg \<noteq> [] \<and> tls_key cfg = []) \<Longrightarrow>
   loadCerts w cfg = (Inr [zero_Certificate], []) \<and>
   loadCerts w cfg = loadCerts w (cfg\<lparr>tls_cert := [], tls_key := []\<rparr>)"
  by (auto simp: loadCerts_def Let_def)

theorem C9_loadCerts_one_path_empty_witness:
  "tls_cert (example_config\<lparr>tls_cert := ''client.pem''\<rparr>) \<noteq> [] \<and>
   tls_key (example_config\<lparr>tls_cert := ''client.pem''\<rparr>) = [] \<and>
   loadCerts example_world (example_config\<lparr>tls_cert := ''client.pem''\<rparr>) =
     (Inr [zero_Certificate], [])"
  using C9_loadCerts_one_path_empty [of "example_config\<lparr>tls_cert := ''client.pem''\<rparr>" example_world]
  by (simp add: example_config_def)

text \<open>
  C7. With an empty CA path \<^verbatim>\<open>loadCACerts\<close> returns the empty pool and no error. With
  a path it returns an error exactly when the file cannot be read or no certificate is
  parsed from it, and otherwise the pool of the certificates parsed from the file.
\<close>

theorem C7_loadCACerts:
  "(tls_ca cfg = [] \<longrightarrow> loadCACerts w cfg = (Inr {}, [])) \<and>
   (tls_ca cfg \<noteq> [] \<longrightarrow>
      (isl (fst (loadCACerts w cfg)) \<longleftrightarrow>
         isl (ReadFile w (tls_ca cfg)) \<or>
         (\<exists>caFile. ReadFile w (tls_ca cfg) = Inr caFile \<and> pem_certificates w caFile = [])) \<and>
      (\<forall>caFile. ReadFile w (tls_ca cfg) = Inr caFile \<and> pem_certificates w caFile \<noteq> [] \<longrightarrow>
         fst (loadCACerts w cfg) = Inr (set (pem_certificates w caFile))))"
  by (auto simp: loadCACerts_def Let_def NewCertPool_def AppendCertsFromPEM_def split: sum.splits)

theorem C7_loadCACerts_witness:
  "tls_ca example_config = [] \<and>
   loadCACerts example_world example_config = (Inr {}, []) \<and>
   tls_ca (example_config\<lparr>tls_ca := ''ca.pem''\<rparr>) \<noteq> [] \<and>
   ReadFile example_world ''ca.pem'' = Inr ''PEM'' \<and>
   pem_certificates example_world ''PEM'' \<noteq> [] \<and>
   fst (loadCACerts example_world (example_config\<lparr>tls_ca := ''ca.pem''\<rparr>)) = Inr {''DER''} \<and>
   tls_ca (example_config\<lparr>tls_ca := ''empty.pem''\<rparr>) \<noteq> [] \<and>
   isl (fst (loadCACerts example_world (example_config\<lparr>tls_ca := ''empty.pem''\<rparr>))) \<and>
   tls_ca (example_config\<lparr>tls_ca := ''missing.pem''\<rparr>) \<noteq> [] \<and>
   isl (fst (loadCACerts example_world (example_config\<lparr>tls_ca := ''missing.pem''\<rparr>)))"
  using C7_loadCACerts [of example_config example_world]
    C7_loadCACerts [of "example_config\<lparr>tls_ca := ''ca.pem''\<rparr>" example_world]
    C7_loadCACerts [of "example_config\<lparr>tls_ca := ''empty.pem''\<rparr>" example_world]
    C7_loadCACerts [of "example_config\<lparr>tls_ca := ''missing.pem''\<rparr>" example_world]
  by (simp add: example_config_def example_world_def)

text \<open>
  C5. When the timeout string does not parse as a duration, \<^verbatim>\<open>createGrpcConn\<close>
  returns the parse error and has had no effect: no certificate file was read, nothing
  was logged and nothing was dialled.
\<close>

theorem C5_createGrpcConn_bad_timeout:
  "ParseDuration w (timeout cfg) = Inl err \<Longrightarrow> createGrpcConn w cfg address = (Inl err, [])"
  by (simp add: createGrpcConn_def)

theorem C5_createGrpcConn_bad_timeout_witness:
  "ParseDuration example_world (timeout (example_config\<lparr>timeout := ''soon''\<rparr>)) =
     Inl (errorString ''time: invalid duration soon'') \<and>
   createGrpcConn example_world (example_config\<lparr>timeout := ''soon''\<rparr>) ''10.0.0.1:57400'' =
     (Inl (errorString ''time: invalid duration soon''), [])"
  using C5_createGrpcConn_bad_timeout [of example_world "example_config\<lparr>timeout := ''soon''\<rparr>"
      "errorString ''time: invalid duration soon''" "''10.0.0.1:57400''"]
  by (simp add: example_config_def example_world_def)

text \<open>
  C6. With \<open>insecure\<close> set, no effect of \<^verbatim>\<open>createGrpcConn\<close> reads certificate material,
  whatever the address and the rest of the configuration, and its result and effects do
  not depend on what the key-pair loader, the file reader and the PEM parser would
  return.
\<close>

theorem C6_createGrpcConn_insecure:
  "insecure cfg \<Longrightarrow>
   filter reads_certificate_material (snd (createGrpcConn w cfg address)) = [] \<and>
   createGrpcConn w cfg address =
     createGrpcConn (w\<lparr>LoadX509KeyPair := l, ReadFile := r, pem_certificates := p\<rparr>) cfg address"
  by (simp add: createGrpcConn_def Let_def split: sum.split)

theorem C6_createGrpcConn_insecure_witness:
  "insecure (example_config\<lparr>insecure := True, tls_ca := ''ca.pem''\<rparr>) \<and>
   filter reads_certificate_material
     (snd (createGrpcConn example_world (example_config\<lparr>insecure := True, tls_ca := ''ca.pem''\<rparr>)
        ''10.0.0.1:57400'')) = []"
  using C6_createGrpcConn_insecure
    [of "example_config\<lparr>insecure := True, tls_ca := ''ca.pem''\<rparr>" example_world "''10.0.0.1:57400''"]
  by (simp add: example_config_def)

subsection \<open>Rendering a path\<close>

lemma range_Key_eq:
  "range_Key elem kvs = elem @ concat (map (\<lambda>(k, v). ''['' @ k @ ''='' @ v @ '']'') kvs)"
  by (induction kvs arbitrary: elem) (auto simp: Sprintf_key_def)

lemma path_elem_body_eq: "path_elem_body pathElems pe = pathElems @ [rendered_element pe]"
  by (simp add: path_elem_body_def rendered_element_def range_Key_eq split: option.split)

lemma range_Elem_eq: "range_Elem pathElems pes = pathElems @ map rendered_element pes"
  by (induction pes arbitrary: pathElems) (simp_all add: path_elem_body_eq)

lemma joined_with_Cons: "joined_with sep (x # xs) = x @ concat (map (\<lambda>s. sep @ s) xs)"
  by (induction xs arbitrary: x) simp_all

lemma Join_builder_eq: "Join_builder b ss sep = b @ concat (map (\<lambda>s. sep @ s) ss)"
  by (induction ss arbitrary: b) simp_all

lemma strings_Join_eq: "strings_Join es sep = joined_with sep es"
proof (cases es)
  case Nil
  then show ?thesis by simp
next
  case (Cons e es')
  then show ?thesis by (cases es') (simp_all add: Join_builder_eq joined_with_Cons)
qed

text \<open>
  C2. \<^verbatim>\<open>gnmiPathToXPath\<close> returns the empty string for a nil path, and for any other
  path the rendered elements, in order, joined with \<open>/\<close>, where an element is rendered
  as its name followed by one \<open>[key=value]\<close> for each entry of its key map, in the
  order in which the entries are visited. It is a total function. The three examples
  of the specification are instances.
\<close>

theorem C2_gnmiPathToXPath:
  "gnmiPathToXPath None = [] \<and>
   gnmiPathToXPath (Some p) = joined_with ''/'' (map rendered_element (Elem p)) \<and>
   gnmiPathToXPath (Some \<lparr>Elem = [Some \<lparr>Name = ''a'', Key = Some []\<rparr>,
                                    Some \<lparr>Name = ''b'', Key = Some [(''k'', ''v'')]\<rparr>]\<rparr>) = ''a/b[k=v]'' \<and>
   gnmiPathToXPath (Some \<lparr>Elem = [Some \<lparr>Name = [], Key = Some []\<rparr>]\<rparr>) = []"
  by (simp add: gnmiPathToXPath_def GetElem_def range_Elem_eq strings_Join_eq rendered_element_def
      GetName_def GetKey_def)

subsection \<open>Decoding a typed value\<close>

lemmas scanner_defs =
  json_Unmarshal_def reset_def scan_eof_def scan_step_def stateBeginValue_step_def
  stateBeginString_step_def stateEndValue_step_def stateEndTop_step_def state0_step_def
  stateESign_step_def number_end_def store_number_def store_value_def popParseState_def
  pushParseState_def maxNestingDepth_def saveError_def scan_error_def literal_step_def
  literal_end_def hex_step_def isSpace_def isDigit_def isHex_def byte_def

lemma json_Unmarshal_empty: "json_Unmarshal [] = Inl SyntaxError_unexpected_end"
  by (simp add: scanner_defs)

lemma json_Unmarshal_null: "json_Unmarshal ''null'' = Inr nil"
  by (simp add: scanner_defs)





lemma getValue_json:
  "getValue (Some (TypedValue (Some (TypedValue_JsonVal b)))) = Returns (json_Unmarshal b)"
  "getValue (Some (TypedValue (Some (TypedValue_JsonIetfVal b)))) = Returns (json_Unmarshal b)"
  by (simp_all add: getValue_def split: sum.split)

text \<open>
  C1, as the specification states it, fails: for the typed value with no variant
  populated \<^verbatim>\<open>getValue\<close> does not return nil with no error.
\<close>

theorem C1_getValue_no_variant_counterexample:
  "getValue (Some (TypedValue None)) \<noteq> Returns (Inr nil)"
  by (simp add: getValue_def json_Unmarshal_empty)

text \<open>
  C1, amended. For the typed value with no variant populated, \<^verbatim>\<open>getValue\<close> gives the
  empty payload to the JSON decoder, and returns no value and the decoder's error, that
  the input ended unexpectedly.
\<close>

theorem C1_getValue_no_variant:
  "getValue (Some (TypedValue None)) = Returns (Inl SyntaxError_unexpected_end)"
  by (simp add: getValue_def json_Unmarshal_empty)

text \<open>
  C3. For each of the eleven variants that are not JSON, \<^verbatim>\<open>getValue\<close> returns the
  payload as it is, with no error; an \<open>IntVal\<close> of 42 gives the integer 42.
\<close>

theorem C3_getValue_pass_through:
  "getValue (Some (TypedValue (Some (TypedValue_AsciiVal s)))) = Returns (Inr (string_val s)) \<and>
   getValue (Some (TypedValue (Some (TypedValue_BoolVal b)))) = Returns (Inr (bool_val b)) \<and>
   getValue (Some (TypedValue (Some (TypedValue_BytesVal bs)))) = Returns (Inr (bytes_val bs)) \<and>
   getValue (Some (TypedValue (Some (TypedValue_DecimalVal d)))) = Returns (Inr (Decimal64_ptr d)) \<and>
   getValue (Some (TypedValue (Some (TypedValue_FloatVal f)))) = Returns (Inr (float32_val f)) \<and>
   getValue (Some (TypedValue (Some (TypedValue_IntVal i)))) = Returns (Inr (int64_val i)) \<and>
   getValue (Some (TypedValue (Some (TypedValue_StringVal s)))) = Returns (Inr (string_val s)) \<and>
   getValue (Some (TypedValue (Some (TypedValue_UintVal u)))) = Returns (Inr (uint64_val u)) \<and>
   getValue (Some (TypedValue (Some (TypedValue_LeaflistVal l)))) = Returns (Inr (ScalarArray_ptr l)) \<and>
   getValue (Some (TypedValue (Some (TypedValue_ProtoBytes bs)))) = Returns (Inr (bytes_val bs)) \<and>
   getValue (Some (TypedValue (Some (TypedValue_AnyVal a)))) = Returns (Inr (Any_ptr a)) \<and>
   getValue (Some (TypedValue (Some (TypedValue_IntVal 42)))) = Returns (Inr (int64_val 42))"
  by (simp add: getValue_def)


text \<open>
  C10. For a JSON or JSON-IETF variant whose payload is the literal \<open>null\<close>,
  \<^verbatim>\<open>getValue\<close> returns nil and no error.
\<close>

theorem C10_getValue_json_null:
  "getValue (Some (TypedValue (Some (TypedValue_JsonVal ''null'')))) = Returns (Inr nil) \<and>
   getValue (Some (TypedValue (Some (TypedValue_JsonIetfVal ''null'')))) = Returns (Inr nil)"
  by (simp only: getValue_json json_Unmarshal_null simp_thms)

subsection \<open>The consumers of the channel\<close>











end
